theory Spec2Isabelle
  imports Complex_Main
begin

section \<open>Python values\<close>

text \<open>
  The handler of \<^verbatim>\<open>app.py\<close> works on what \<^verbatim>\<open>request.get_json()\<close> returns: a Python
  value decoded from JSON. A \<^verbatim>\<open>dict\<close> is an association list (the decoder has already
  made the keys distinct; lookup takes the first binding), a \<^verbatim>\<open>float\<close> is the rational
  it denotes, and a \<^verbatim>\<open>str\<close> is a list of characters, one \<open>char\<close> per code point
  (code points below 256).
\<close>

datatype json =
    JNull
  | JBool bool
  | JInt int
  | JFloat rat
  | JStr string
  | JArr "json list"
  | JObj "(string \<times> json) list"

text \<open>Python truth value, as \<^verbatim>\<open>not x\<close> and \<^verbatim>\<open>if x\<close> test it.\<close>

fun py_truthy :: "json \<Rightarrow> bool" where
  "py_truthy JNull = False"
| "py_truthy (JBool b) = b"
| "py_truthy (JInt n) = (n \<noteq> 0)"
| "py_truthy (JFloat x) = (x \<noteq> 0)"
| "py_truthy (JStr s) = (s \<noteq> [])"
| "py_truthy (JArr xs) = (xs \<noteq> [])"
| "py_truthy (JObj kvs) = (kvs \<noteq> [])"

text \<open>
  Exceptions raised inside the endpoint, each with its message. \<open>BadRequest\<close> is what
  \<^verbatim>\<open>request.get_json()\<close> raises on a body that does not parse.
\<close>

datatype pyexc =
    AttributeError string
  | KeyError string
  | TypeError string
  | BadRequest string

text \<open>\<^verbatim>\<open>d.get(k, default)\<close>: only a dict has the method.\<close>

fun py_get :: "json \<Rightarrow> string \<Rightarrow> json \<Rightarrow> pyexc + json" where
  "py_get (JObj kvs) k d = Inr (case map_of kvs k of None \<Rightarrow> d | Some v \<Rightarrow> v)"
| "py_get _ k d = Inl (AttributeError ''get'')"

text \<open>\<^verbatim>\<open>d[k]\<close> with a string key.\<close>

fun py_item :: "json \<Rightarrow> string \<Rightarrow> pyexc + json" where
  "py_item (JObj kvs) k = (case map_of kvs k of None \<Rightarrow> Inl (KeyError k) | Some v \<Rightarrow> Inr v)"
| "py_item _ k = Inl (TypeError ''subscript'')"

text \<open>
  \<^verbatim>\<open>str.isspace\<close> on one character, for the code points below 256: TAB, LF, VT, FF, CR,
  the separators 0x1C to 0x1F, SPACE, NEL (0x85) and NBSP (0xA0).
\<close>

definition isspace :: "char \<Rightarrow> bool" where
  "isspace c = (let n = (of_char c :: nat) in
     (9 \<le> n \<and> n \<le> 13) \<or> (28 \<le> n \<and> n \<le> 32) \<or> n = 133 \<or> n = 160)"

definition lstrip :: "string \<Rightarrow> string" where
  "lstrip s = dropWhile isspace s"

definition rstrip :: "string \<Rightarrow> string" where
  "rstrip s = rev (dropWhile isspace (rev s))"

definition strip :: "string \<Rightarrow> string" where
  "strip s = rstrip (lstrip s)"

text \<open>\<^verbatim>\<open>v.strip()\<close>: only a \<^verbatim>\<open>str\<close> has the method.\<close>

fun py_strip :: "json \<Rightarrow> pyexc + json" where
  "py_strip (JStr s) = Inr (JStr (strip s))"
| "py_strip _ = Inl (AttributeError ''strip'')"

text \<open>\<^verbatim>\<open>sep.join(xs)\<close> on a list of strings.\<close>

fun join :: "string \<Rightarrow> string list \<Rightarrow> string" where
  "join sep [] = []"
| "join sep [x] = x"
| "join sep (x # y # ys) = x @ sep @ join sep (y # ys)"

section \<open>The outbound call\<close>

text \<open>
  \<^verbatim>\<open>requests.post\<close> either returns a response or raises. The classes that the
  \<^verbatim>\<open>except\<close> clauses of \<^verbatim>\<open>create_account\<close> tell apart, with the subclass relation of
  the \<^verbatim>\<open>requests\<close> library: \<open>ConnectTimeout\<close> is both a \<open>ConnectionError\<close> and a
  \<open>Timeout\<close>, \<open>ReadTimeout\<close> is a \<open>Timeout\<close>, all of them are \<open>RequestException\<close>s, and
  \<open>OtherException\<close> stands for any exception outside that hierarchy.
\<close>

datatype exc_class =
    Timeout
  | ConnectTimeout
  | ReadTimeout
  | ConnectionError
  | RequestException
  | OtherException

fun is_Timeout :: "exc_class \<Rightarrow> bool" where
  "is_Timeout Timeout = True"
| "is_Timeout ConnectTimeout = True"
| "is_Timeout ReadTimeout = True"
| "is_Timeout _ = False"

fun is_ConnectionError :: "exc_class \<Rightarrow> bool" where
  "is_ConnectionError ConnectionError = True"
| "is_ConnectionError ConnectTimeout = True"
| "is_ConnectionError _ = False"

fun is_RequestException :: "exc_class \<Rightarrow> bool" where
  "is_RequestException OtherException = False"
| "is_RequestException _ = True"

text \<open>A raised exception: its class and its text (\<^verbatim>\<open>str(e)\<close>).\<close>

datatype raised = Raised exc_class string

text \<open>
  The body of an upstream response, by what \<^verbatim>\<open>response.json()\<close> does on it: the body is
  empty (\<^verbatim>\<open>response.content\<close> is falsy and nothing is parsed), it is well-formed JSON
  (the value is returned), it is text on which \<^verbatim>\<open>json.JSONDecodeError\<close> is raised, or
  it is a body on which another exception is raised (\<^verbatim>\<open>ValueError\<close> for an integer
  literal beyond the digit limit, \<^verbatim>\<open>RecursionError\<close> for deep nesting), which the inner
  \<^verbatim>\<open>except json.JSONDecodeError\<close> does not catch.
\<close>

datatype content = NoContent | JsonContent json | RawText string | JsonFault raised

record reply =
  status_code :: int
  reply_content :: content

text \<open>
  The upstream, as seen by the relay: the function from the payload given to
  \<^verbatim>\<open>requests.post\<close> (URL, headers and timeout are constants) to what the call does.
\<close>

type_synonym upstream = "json \<Rightarrow> raised + reply"

text \<open>
  The inner \<^verbatim>\<open>try\<close>: \<^verbatim>\<open>response.json() if response.content else {}\<close>, with the raw
  text kept on a \<^verbatim>\<open>JSONDecodeError\<close>; any other exception leaves the block.
\<close>

definition response_data :: "content \<Rightarrow> raised + json" where
  "response_data c = (case c of
       NoContent \<Rightarrow> Inr (JObj [])
     | JsonContent j \<Rightarrow> Inr j
     | RawText t \<Rightarrow> Inr (JObj [(''raw_text'', JStr t)])
     | JsonFault e \<Rightarrow> Inl e)"

text \<open>
  The four \<^verbatim>\<open>except\<close> clauses of \<^verbatim>\<open>create_account\<close>, tried in the order written; the
  text of the exception goes to the log only.
\<close>

fun except_clauses :: "raised \<Rightarrow> (string \<times> json) list" where
  "except_clauses (Raised c e) =
     (if is_Timeout c then
        [(''success'', JBool False),
         (''error'', JStr ''Request timed out. Please try again.''),
         (''status_code'', JNull)]
      else if is_ConnectionError c then
        [(''success'', JBool False),
         (''error'', JStr ''Connection error. Please check your internet connection.''),
         (''status_code'', JNull)]
      else if is_RequestException c then
        [(''success'', JBool False),
         (''error'', JStr ''Network error occurred. Please try again.''),
         (''status_code'', JNull)]
      else
        [(''success'', JBool False),
         (''error'', JStr ''An unexpected error occurred. Please try again.''),
         (''status_code'', JNull)])"

text \<open>
  \<^verbatim>\<open>AccountCreationAPI.create_account\<close>: the result dict, key by key. Both the call and
  the decoding of the response are inside the outer \<^verbatim>\<open>try\<close>.
\<close>

definition create_account :: "upstream \<Rightarrow> json \<Rightarrow> (string \<times> json) list" where
  "create_account post account_data =
     (case post account_data of
        Inl exc \<Rightarrow> except_clauses exc
      | Inr response \<Rightarrow>
          (case response_data (reply_content response) of
             Inl exc \<Rightarrow> except_clauses exc
           | Inr data \<Rightarrow>
               [(''success'', JBool (status_code response \<in> set [200, 201])),
                (''status_code'', JInt (status_code response)),
                (''data'', data),
                (''message'', JStr (if status_code response \<in> set [200, 201]
                                    then ''Account created successfully''
                                    else ''Account creation failed''))]))"

section \<open>The endpoint\<close>

datatype http_method = POST | OPTIONS

text \<open>
  What the handler reads of the request: the method (the route admits \<open>POST\<close> and
  \<open>OPTIONS\<close>), \<^verbatim>\<open>request.is_json\<close>, and the outcome of \<^verbatim>\<open>request.get_json()\<close>.
\<close>

record request =
  http_method :: http_method
  is_json :: bool
  get_json :: "pyexc + json"

text \<open>
  What the handler does: the JSON body and the status handed to Flask, and the payloads
  given to \<^verbatim>\<open>requests.post\<close>, in order.
\<close>

record outcome =
  body :: json
  status :: json
  outbound :: "json list"

definition required_fields :: "string list" where
  "required_fields = [''email'', ''password'', ''firstname'', ''lastname'', ''phoneNumber'']"

text \<open>\<^verbatim>\<open>[field for field in required_fields if not data.get(field)]\<close>\<close>

fun missing_of :: "json \<Rightarrow> string list \<Rightarrow> pyexc + string list" where
  "missing_of data [] = Inr []"
| "missing_of data (field # more_fields) =
     (case py_get data field JNull of
        Inl e \<Rightarrow> Inl e
      | Inr v \<Rightarrow>
          (case missing_of data more_fields of
             Inl e \<Rightarrow> Inl e
           | Inr rest \<Rightarrow> Inr (if \<not> py_truthy v then field # rest else rest)))"

definition missing_fields :: "json \<Rightarrow> pyexc + string list" where
  "missing_fields data = missing_of data required_fields"

definition default_offer :: string where
  "default_offer = ''1a3d47dd-ea8c-4529-9e36-8a42499fcc69''"

text \<open>
  \<^verbatim>\<open>x[k].strip()\<close>, the subscript first.
\<close>

definition item_strip :: "json \<Rightarrow> string \<Rightarrow> pyexc + json" where
  "item_strip data k = (case py_item data k of Inl e \<Rightarrow> Inl e | Inr v \<Rightarrow> py_strip v)"

text \<open>
  The dict display that builds \<^verbatim>\<open>account_data\<close>; its values are evaluated in the
  order written, and the first that raises ends the evaluation.
\<close>

definition account_data :: "json \<Rightarrow> pyexc + json" where
  "account_data data =
     (case item_strip data ''email'' of Inl e \<Rightarrow> Inl e | Inr email \<Rightarrow>
      case py_item data ''password'' of Inl e \<Rightarrow> Inl e | Inr password \<Rightarrow>
      case py_get data ''offer'' (JStr default_offer) of Inl e \<Rightarrow> Inl e | Inr offer \<Rightarrow>
      case py_get data ''createAsDepositedAccount'' (JBool False) of Inl e \<Rightarrow> Inl e | Inr deposited \<Rightarrow>
      case item_strip data ''firstname'' of Inl e \<Rightarrow> Inl e | Inr firstname \<Rightarrow>
      case item_strip data ''lastname'' of Inl e \<Rightarrow> Inl e | Inr lastname \<Rightarrow>
      case item_strip data ''phoneNumber'' of Inl e \<Rightarrow> Inl e | Inr phoneNumber \<Rightarrow>
        Inr (JObj
          [(''email'', email),
           (''password'', password),
           (''offer'', offer),
           (''createAsDepositedAccount'', deposited),
           (''personalDetails'', JObj [(''firstname'', firstname), (''lastname'', lastname)]),
           (''contactDetails'', JObj [(''phoneNumber'', phoneNumber)])]))"

text \<open>
  The status of a finished call: 200 on success, else \<^verbatim>\<open>result.get("status_code", 500)\<close>
  with \<^verbatim>\<open>None\<close> replaced by 500.
\<close>

definition relay_status :: "(string \<times> json) list \<Rightarrow> pyexc + json" where
  "relay_status result =
     (case py_item (JObj result) ''success'' of
        Inl e \<Rightarrow> Inl e
      | Inr s \<Rightarrow>
          if py_truthy s then Inr (JInt 200)
          else (case py_get (JObj result) ''status_code'' (JInt 500) of
                  Inl e \<Rightarrow> Inl e
                | Inr sc \<Rightarrow> Inr (if sc = JNull then JInt 500 else sc)))"

definition error_body :: "string \<Rightarrow> json" where
  "error_body msg = JObj [(''success'', JBool False), (''error'', JStr msg)]"

text \<open>
  The \<^verbatim>\<open>try\<close> block of \<^verbatim>\<open>create_simple_account\<close>. The argument of the log line before
  validation, \<^verbatim>\<open>data.get('email', 'unknown')\<close>, is evaluated and can raise; the other
  log lines only format values already computed.
\<close>

definition try_block :: "upstream \<Rightarrow> request \<Rightarrow> pyexc + outcome" where
  "try_block post req =
     (if \<not> is_json req then
        Inr \<lparr>body = error_body ''Content-Type must be application/json'',
             status = JInt 400, outbound = []\<rparr>
      else case get_json req of Inl e \<Rightarrow> Inl e | Inr data \<Rightarrow>
        if \<not> py_truthy data then
          Inr \<lparr>body = error_body ''No JSON data provided'', status = JInt 400, outbound = []\<rparr>
        else case py_get data ''email'' (JStr ''unknown'') of Inl e \<Rightarrow> Inl e | Inr logged \<Rightarrow>
          case missing_fields data of Inl e \<Rightarrow> Inl e | Inr missing \<Rightarrow>
            if missing \<noteq> [] then
              Inr \<lparr>body = error_body (''Missing required fields: '' @ join '', '' missing),
                   status = JInt 400, outbound = []\<rparr>
            else case account_data data of Inl e \<Rightarrow> Inl e | Inr payload \<Rightarrow>
              (let result = create_account post payload in
               case relay_status result of
                 Inl e \<Rightarrow> Inl e
               | Inr sc \<Rightarrow> Inr \<lparr>body = JObj result, status = sc, outbound = [payload]\<rparr>))"

text \<open>
  \<^verbatim>\<open>create_simple_account\<close>: the preflight answer, else the \<^verbatim>\<open>try\<close> block under its
  catch-all \<^verbatim>\<open>except Exception\<close>, which answers 500 whatever was raised. Whatever
  raises in the block does so before the outbound call: after it only \<open>relay_status\<close>
  could, and on a result of \<open>create_account\<close> it does not.
\<close>

definition create_simple_account :: "upstream \<Rightarrow> request \<Rightarrow> outcome" where
  "create_simple_account post req =
     (if http_method req = OPTIONS then
        \<lparr>body = JObj [(''status'', JStr ''ok'')], status = JInt 200, outbound = []\<rparr>
      else case try_block post req of
        Inr r \<Rightarrow> r
      | Inl e \<Rightarrow>
          \<lparr>body = error_body ''Internal server error occurred'',
           status = JInt 500, outbound = []\<rparr>)"

section \<open>Vocabulary of the properties\<close>


text \<open>
  The value \<^verbatim>\<open>data.get(k)\<close> of a dict, \<^verbatim>\<open>None\<close> for an absent key; a key that is
  absent or bound to the empty string; the dict without a key.
\<close>

definition dict_get :: "(string \<times> json) list \<Rightarrow> string \<Rightarrow> json" where
  "dict_get d k = (case map_of d k of None \<Rightarrow> JNull | Some v \<Rightarrow> v)"

definition absent_or_empty :: "(string \<times> json) list \<Rightarrow> string \<Rightarrow> bool" where
  "absent_or_empty d k = (map_of d k = None \<or> map_of d k = Some (JStr []))"

definition without :: "string \<Rightarrow> (string \<times> json) list \<Rightarrow> (string \<times> json) list" where
  "without k d = filter (\<lambda>kv. fst kv \<noteq> k) d"

text \<open>The Python types that the handler tells apart without naming them.\<close>

fun is_object :: "json \<Rightarrow> bool" where
  "is_object (JObj kvs) = True"
| "is_object _ = False"

fun is_str :: "json \<Rightarrow> bool" where
  "is_str (JStr s) = True"
| "is_str _ = False"

text \<open>
  The fields on which the handler calls \<^verbatim>\<open>.strip()\<close>, the place of each required field
  in the payload, and the value found in a payload at a path of keys.
\<close>

definition trimmed_fields :: "string list" where
  "trimmed_fields = [''email'', ''firstname'', ''lastname'', ''phoneNumber'']"

fun field_at :: "json \<Rightarrow> string list \<Rightarrow> json option" where
  "field_at v [] = Some v"
| "field_at (JObj kvs) (k # ks) = (case map_of kvs k of None \<Rightarrow> None | Some v \<Rightarrow> field_at v ks)"
| "field_at _ (k # ks) = None"

definition path_of :: "string \<Rightarrow> string list" where
  "path_of f =
     (if f = ''firstname'' \<or> f = ''lastname'' then [''personalDetails'', f]
      else if f = ''phoneNumber'' then [''contactDetails'', f]
      else [f])"

text \<open>What was sent upstream at a path: one entry for each outbound call.\<close>

definition transmitted :: "outcome \<Rightarrow> string list \<Rightarrow> json option list" where
  "transmitted out path = map (\<lambda>p. field_at p path) (outbound out)"

text \<open>
  The reason string of each failure class of the outbound call, as the specification
  lists them: a timeout of any kind, a connection failure, another transport
  exception, anything else.
\<close>

fun stable_reason :: "exc_class \<Rightarrow> string" where
  "stable_reason Timeout = ''Request timed out. Please try again.''"
| "stable_reason ConnectTimeout = ''Request timed out. Please try again.''"
| "stable_reason ReadTimeout = ''Request timed out. Please try again.''"
| "stable_reason ConnectionError = ''Connection error. Please check your internet connection.''"
| "stable_reason RequestException = ''Network error occurred. Please try again.''"
| "stable_reason OtherException = ''An unexpected error occurred. Please try again.''"

text \<open>
  Two response bodies, two outcomes of the outbound call, and two outcomes of
  \<^verbatim>\<open>get_json\<close>, that differ at most in the text of the exception raised.
\<close>

fun same_content_but_text :: "content \<Rightarrow> content \<Rightarrow> bool" where
  "same_content_but_text (JsonFault (Raised c1 t1)) (JsonFault (Raised c2 t2)) = (c1 = c2)"
| "same_content_but_text b1 b2 = (b1 = b2)"

fun same_but_text :: "raised + reply \<Rightarrow> raised + reply \<Rightarrow> bool" where
  "same_but_text (Inl (Raised c1 t1)) (Inl (Raised c2 t2)) = (c1 = c2)"
| "same_but_text (Inr r1) (Inr r2) =
     (status_code r1 = status_code r2 \<and>
      same_content_but_text (reply_content r1) (reply_content r2))"
| "same_but_text _ _ = False"

fun same_body_but_text :: "pyexc + json \<Rightarrow> pyexc + json \<Rightarrow> bool" where
  "same_body_but_text (Inl e1) (Inl e2) = True"
| "same_body_but_text (Inr v1) (Inr v2) = (v1 = v2)"
| "same_body_but_text _ _ = False"

text \<open>Concrete requests and upstreams, for the examples.\<close>

definition post_request :: "json \<Rightarrow> request" where
  "post_request data = \<lparr>http_method = POST, is_json = True, get_json = Inr data\<rparr>"

definition upstream_201 :: upstream where
  "upstream_201 p = Inr \<lparr>status_code = 201,
     reply_content = JsonContent (JObj [(''id'', JStr ''abc'')])\<rparr>"



definition upstream_raising :: "exc_class \<Rightarrow> string \<Rightarrow> upstream" where
  "upstream_raising c t p = Inl (Raised c t)"

definition sample_fields :: "(string \<times> json) list" where
  "sample_fields =
     [(''email'', JStr '' ann@example.org ''),
      (''password'', JStr '' s3cret ''),
      (''firstname'', JStr ''Ann ''),
      (''lastname'', JStr '' Lee''),
      (''phoneNumber'', JStr '' 555 0100 '')]"

definition sample_payload :: json where
  "sample_payload = JObj
     [(''email'', JStr ''ann@example.org''),
      (''password'', JStr '' s3cret ''),
      (''offer'', JStr default_offer),
      (''createAsDepositedAccount'', JBool False),
      (''personalDetails'', JObj [(''firstname'', JStr ''Ann''), (''lastname'', JStr ''Lee'')]),
      (''contactDetails'', JObj [(''phoneNumber'', JStr ''555 0100'')])]"

definition partial_fields :: "(string \<times> json) list" where
  "partial_fields =
     [(''email'', JStr ''ann@example.org''),
      (''password'', JStr []),
      (''firstname'', JStr ''Ann'')]"

definition padded_fields :: "(string \<times> json) list" where
  "padded_fields = sample_fields @ [(''offer'', JStr '' gold '')]"

definition blank_name_fields :: "(string \<times> json) list" where
  "blank_name_fields =
     [(''email'', JStr ''ann@example.org''),
      (''password'', JStr ''s3cret''),
      (''firstname'', JStr ''Ann''),
      (''lastname'', JStr [CHR '' '', CHR 0x09]),
      (''phoneNumber'', JStr ''5550100'')]"

definition numeric_phone_fields :: "(string \<times> json) list" where
  "numeric_phone_fields =
     [(''email'', JStr ''ann@example.org''),
      (''password'', JStr ''s3cret''),
      (''firstname'', JStr ''Ann''),
      (''lastname'', JStr ''Lee''),
      (''phoneNumber'', JInt 5550100)]"

definition null_phone_fields :: "(string \<times> json) list" where
  "null_phone_fields =
     [(''email'', JStr ''ann@example.org''),
      (''password'', JInt 0),
      (''firstname'', JStr ''Ann''),
      (''lastname'', JBool False),
      (''phoneNumber'', JNull)]"

section \<open>Auxiliary facts\<close>

lemma missing_of_object:
  "missing_of (JObj d) fs = Inr (filter (\<lambda>f. \<not> py_truthy (dict_get d f)) fs)"
  by (induction fs) (simp_all add: dict_get_def)

lemma missing_fields_object:
  "missing_fields (JObj d) = Inr (filter (\<lambda>f. \<not> py_truthy (dict_get d f)) required_fields)"
  by (simp add: missing_fields_def missing_of_object)

lemma relay_status_except_clauses:
  "relay_status (except_clauses exc) = Inr (JInt 500)"
  by (cases exc) (simp add: relay_status_def)

lemma relay_status_create_account:
  "relay_status (create_account post p) =
     Inr (case post p of
        Inl exc \<Rightarrow> JInt 500
      | Inr r \<Rightarrow>
          (case response_data (reply_content r) of
             Inl exc \<Rightarrow> JInt 500
           | Inr parsed \<Rightarrow>
               if status_code r = 200 \<or> status_code r = 201 then JInt 200
               else JInt (status_code r)))"
proof (cases "post p")
  case (Inl exc)
  then show ?thesis
    by (simp add: create_account_def relay_status_except_clauses)
next
  case call: (Inr r)
  show ?thesis
  proof (cases "response_data (reply_content r)")
    case (Inl exc)
    with call show ?thesis
      by (simp add: create_account_def relay_status_except_clauses)
  next
    case (Inr parsed)
    with call show ?thesis
      by (simp add: create_account_def relay_status_def)
  qed
qed

lemma try_block_object:
  assumes "is_json req" "get_json req = Inr (JObj d)" "d \<noteq> []"
  shows "try_block post req =
     (if filter (\<lambda>f. \<not> py_truthy (dict_get d f)) required_fields \<noteq> [] then
        Inr \<lparr>body = error_body (''Missing required fields: '' @
                 join '', '' (filter (\<lambda>f. \<not> py_truthy (dict_get d f)) required_fields)),
             status = JInt 400, outbound = []\<rparr>
      else case account_data (JObj d) of
        Inl e \<Rightarrow> Inl e
      | Inr payload \<Rightarrow>
          Inr \<lparr>body = JObj (create_account post payload),
               status = (case post payload of
                  Inl exc \<Rightarrow> JInt 500
                | Inr r \<Rightarrow>
                    (case response_data (reply_content r) of
                       Inl exc \<Rightarrow> JInt 500
                     | Inr parsed \<Rightarrow>
                         if status_code r = 200 \<or> status_code r = 201 then JInt 200
                         else JInt (status_code r))),
               outbound = [payload]\<rparr>)"
  using assms
  by (auto simp: try_block_def missing_fields_object Let_def relay_status_create_account
      split: sum.splits)

lemma account_data_strings:
  assumes "map_of d ''email'' = Some (JStr e)"
    and "map_of d ''password'' = Some pw"
    and "map_of d ''firstname'' = Some (JStr fname)"
    and "map_of d ''lastname'' = Some (JStr lname)"
    and "map_of d ''phoneNumber'' = Some (JStr ph)"
  shows "account_data (JObj d) = Inr (JObj
     [(''email'', JStr (strip e)),
      (''password'', pw),
      (''offer'', case map_of d ''offer'' of None \<Rightarrow> JStr default_offer | Some v \<Rightarrow> v),
      (''createAsDepositedAccount'',
         case map_of d ''createAsDepositedAccount'' of None \<Rightarrow> JBool False | Some v \<Rightarrow> v),
      (''personalDetails'', JObj [(''firstname'', JStr (strip fname)), (''lastname'', JStr (strip lname))]),
      (''contactDetails'', JObj [(''phoneNumber'', JStr (strip ph))])])"
  using assms by (simp add: account_data_def item_strip_def)

lemma py_strip_not_str: "\<not> is_str v \<Longrightarrow> py_strip v = Inl (AttributeError ''strip'')"
  by (cases v) simp_all

lemma item_strip_not_str:
  "map_of d k = Some v \<Longrightarrow> \<not> is_str v \<Longrightarrow> item_strip (JObj d) k = Inl (AttributeError ''strip'')"
  by (simp add: item_strip_def py_strip_not_str)

lemma account_data_not_str:
  assumes "f \<in> set trimmed_fields" "map_of d f = Some v" "\<not> is_str v"
  shows "isl (account_data (JObj d))"
proof -
  have bad: "item_strip (JObj d) f = Inl (AttributeError ''strip'')"
    using assms by (simp add: item_strip_not_str)
  from assms(1) consider "f = ''email''" | "f = ''firstname''" | "f = ''lastname''"
    | "f = ''phoneNumber''"
    by (auto simp: trimmed_fields_def)
  then show ?thesis
  proof cases
    case 1
    with bad show ?thesis by (simp add: account_data_def)
  next
    case 2
    with bad show ?thesis by (simp add: account_data_def split: sum.splits)
  next
    case 3
    with bad show ?thesis by (simp add: account_data_def split: sum.splits)
  next
    case 4
    with bad show ?thesis by (simp add: account_data_def split: sum.splits)
  qed
qed

lemma strip_blank:
  assumes "\<forall>c \<in> set w. isspace c"
  shows "strip w = []"
proof -
  have blank: "dropWhile isspace w = []"
    using assms by (simp only: dropWhile_eq_Nil_conv)
  show ?thesis
    unfolding strip_def lstrip_def rstrip_def blank by simp
qed

lemma create_simple_account_post:
  assumes "http_method req = POST"
  shows "create_simple_account post req =
     (case try_block post req of
        Inr r \<Rightarrow> r
      | Inl e \<Rightarrow> \<lparr>body = error_body ''Internal server error occurred'',
                    status = JInt 500, outbound = []\<rparr>)"
  using assms by (simp add: create_simple_account_def)

lemma all_truthy_no_missing:
  "(filter (\<lambda>f. \<not> py_truthy (dict_get d f)) required_fields = []) =
     (\<forall>f \<in> set required_fields. py_truthy (dict_get d f))"
  by (simp add: filter_empty_conv)

section \<open>Claim C1: every missing field is listed\<close>

text \<open>
  Claim C1, as stated, at the empty object: \<^verbatim>\<open>{}\<close> is a JSON-object body that misses all
  five required fields, and the answer is 400, but its message is
  \<^verbatim>\<open>No JSON data provided\<close> and not the list of the five names: the guard
  \<^verbatim>\<open>if not data\<close> answers before validation.
\<close>

theorem empty_object_counterexample:
  "create_simple_account upstream_201 (post_request (JObj [])) =
     \<lparr>body = error_body ''No JSON data provided'', status = JInt 400, outbound = []\<rparr>
   \<and> error_body ''No JSON data provided'' \<noteq>
     error_body (''Missing required fields: '' @ join '', '' required_fields)"
  by (simp add: create_simple_account_def try_block_def post_request_def error_body_def
      required_fields_def)

text \<open>
  Claim C1, amended: for a POST request with a JSON content type whose body is a
  \<^emph>\<open>non-empty\<close> object in which at least one required field is absent or the empty
  string, the answer is 400 with no outbound call, and the message is
  \<^verbatim>\<open>Missing required fields: \<close> followed by the comma-joined names of all required
  fields whose value is absent or falsy, in the order of \<open>required_fields\<close>; every
  absent or empty required field is among them.
\<close>

theorem missing_fields_all_listed:
  assumes "http_method req = POST" and "is_json req" and "get_json req = Inr (JObj d)"
    and "d \<noteq> []"
    and "\<exists>f \<in> set required_fields. absent_or_empty d f"
  shows "create_simple_account post req =
       \<lparr>body = error_body (''Missing required fields: '' @
           join '', '' (filter (\<lambda>f. \<not> py_truthy (dict_get d f)) required_fields)),
        status = JInt 400, outbound = []\<rparr>
     \<and> (\<forall>f \<in> set required_fields. absent_or_empty d f \<longrightarrow>
          f \<in> set (filter (\<lambda>f. \<not> py_truthy (dict_get d f)) required_fields))"
proof -
  have falsy: "\<not> py_truthy (dict_get d f)" if "absent_or_empty d f" for f
    using that by (auto simp: absent_or_empty_def dict_get_def)
  from assms(5) obtain f where "f \<in> set required_fields" and "absent_or_empty d f"
    by blast
  then have "f \<in> set (filter (\<lambda>f. \<not> py_truthy (dict_get d f)) required_fields)"
    by (simp add: falsy)
  then have nonempty: "filter (\<lambda>f. \<not> py_truthy (dict_get d f)) required_fields \<noteq> []"
    by (metis empty_iff list.set(1))
  have "try_block post req =
      Inr \<lparr>body = error_body (''Missing required fields: '' @
           join '', '' (filter (\<lambda>f. \<not> py_truthy (dict_get d f)) required_fields)),
        status = JInt 400, outbound = []\<rparr>"
    using nonempty by (simp add: try_block_object [OF assms(2,3,4)])
  then show ?thesis
    by (simp add: create_simple_account_post [OF assms(1)] falsy)
qed

theorem missing_fields_all_listed_witness:
  "create_simple_account upstream_201 (post_request (JObj partial_fields)) =
     \<lparr>body = error_body ''Missing required fields: password, lastname, phoneNumber'',
      status = JInt 400, outbound = []\<rparr>"
proof -
  have h1: "http_method (post_request (JObj partial_fields)) = POST"
    and h2: "is_json (post_request (JObj partial_fields))"
    and h3: "get_json (post_request (JObj partial_fields)) = Inr (JObj partial_fields)"
    by (simp_all add: post_request_def)
  have h4: "partial_fields \<noteq> []"
    by (simp add: partial_fields_def)
  have h5: "\<exists>f \<in> set required_fields. absent_or_empty partial_fields f"
    by (simp add: required_fields_def absent_or_empty_def partial_fields_def)
  show ?thesis
    using missing_fields_all_listed [OF h1 h2 h3 h4 h5, of upstream_201]
    by (simp add: required_fields_def dict_get_def partial_fields_def)
qed

section \<open>Claim C2: the upstream payload\<close>

text \<open>
  Claim C2: for a request whose five required fields are present and non-empty (the
  four trimmed fields strings, the password any truthy value), exactly one payload is
  sent upstream. It holds the trimmed firstname and lastname under
  \<^verbatim>\<open>personalDetails\<close>, the trimmed phoneNumber under \<^verbatim>\<open>contactDetails\<close>, the trimmed
  email at top level, \<open>default_offer\<close> as offer when the request has no offer, and
  \<^verbatim>\<open>false\<close> as createAsDepositedAccount when the request has none.
\<close>

theorem payload_of_valid_request:
  assumes "http_method req = POST" and "is_json req" and "get_json req = Inr (JObj d)"
    and "map_of d ''email'' = Some (JStr e)" and "e \<noteq> []"
    and "map_of d ''password'' = Some pw" and "py_truthy pw"
    and "map_of d ''firstname'' = Some (JStr fname)" and "fname \<noteq> []"
    and "map_of d ''lastname'' = Some (JStr lname)" and "lname \<noteq> []"
    and "map_of d ''phoneNumber'' = Some (JStr ph)" and "ph \<noteq> []"
  shows "outbound (create_simple_account post req) =
     [JObj
       [(''email'', JStr (strip e)),
        (''password'', pw),
        (''offer'', case map_of d ''offer'' of None \<Rightarrow> JStr default_offer | Some v \<Rightarrow> v),
        (''createAsDepositedAccount'',
           case map_of d ''createAsDepositedAccount'' of None \<Rightarrow> JBool False | Some v \<Rightarrow> v),
        (''personalDetails'',
           JObj [(''firstname'', JStr (strip fname)), (''lastname'', JStr (strip lname))]),
        (''contactDetails'', JObj [(''phoneNumber'', JStr (strip ph))])]]"
proof -
  have nonempty: "d \<noteq> []"
    using assms(4) by auto
  have valid: "filter (\<lambda>f. \<not> py_truthy (dict_get d f)) required_fields = []"
    using assms(4-13) by (simp add: required_fields_def dict_get_def)
  show ?thesis
    by (simp add: create_simple_account_post [OF assms(1)]
        try_block_object [OF assms(2,3) nonempty] valid
        account_data_strings [OF assms(4,6,8,10,12)])
qed

theorem payload_of_valid_request_witness:
  "outbound (create_simple_account upstream_201 (post_request (JObj sample_fields))) =
     [sample_payload]"
proof -
  have h1: "http_method (post_request (JObj sample_fields)) = POST"
    and h2: "is_json (post_request (JObj sample_fields))"
    and h3: "get_json (post_request (JObj sample_fields)) = Inr (JObj sample_fields)"
    by (simp_all add: post_request_def)
  have e: "map_of sample_fields ''email'' = Some (JStr '' ann@example.org '')"
    and ene: "'' ann@example.org '' \<noteq> []"
    and p: "map_of sample_fields ''password'' = Some (JStr '' s3cret '')"
    and pt: "py_truthy (JStr '' s3cret '')"
    and f: "map_of sample_fields ''firstname'' = Some (JStr ''Ann '')"
    and fne: "''Ann '' \<noteq> []"
    and l: "map_of sample_fields ''lastname'' = Some (JStr '' Lee'')"
    and lne: "'' Lee'' \<noteq> []"
    and n: "map_of sample_fields ''phoneNumber'' = Some (JStr '' 555 0100 '')"
    and nne: "'' 555 0100 '' \<noteq> []"
    by (simp_all add: sample_fields_def)
  show ?thesis
    using payload_of_valid_request [OF h1 h2 h3 e ene p pt f fne l lne n nne, of upstream_201]
    by (simp add: sample_fields_def sample_payload_def strip_def lstrip_def rstrip_def
        isspace_def)
qed

section \<open>Claims C3 and C4: relaying the outcome of the call\<close>

lemma missing_fields_is_object:
  assumes "missing_fields data = Inr m"
  shows "is_object data"
  using assms by (cases data) (simp_all add: missing_fields_def required_fields_def)

lemma try_block_forward:
  assumes "is_json req" and "get_json req = Inr data" and "py_truthy data"
    and "missing_fields data = Inr []" and "account_data data = Inr payload"
  shows "try_block post req =
     Inr \<lparr>body = JObj (create_account post payload),
          status = (case post payload of
             Inl exc \<Rightarrow> JInt 500
           | Inr r \<Rightarrow>
               (case response_data (reply_content r) of
                  Inl exc \<Rightarrow> JInt 500
                | Inr parsed \<Rightarrow>
                    if status_code r = 200 \<or> status_code r = 201 then JInt 200
                    else JInt (status_code r))),
          outbound = [payload]\<rparr>"
proof -
  from missing_fields_is_object [OF assms(4)] obtain d where obj: "data = JObj d"
    by (cases data) simp_all
  show ?thesis
    using assms
    by (simp add: obj try_block_def relay_status_create_account split: sum.splits)
qed

lemma except_clauses_stable_reason:
  "except_clauses (Raised c t) =
     [(''success'', JBool False), (''error'', JStr (stable_reason c)), (''status_code'', JNull)]"
  by (cases c) simp_all

lemma sample_request_forwarded:
  "http_method (post_request (JObj sample_fields)) = POST"
  "is_json (post_request (JObj sample_fields))"
  "get_json (post_request (JObj sample_fields)) = Inr (JObj sample_fields)"
  "py_truthy (JObj sample_fields)"
  "missing_fields (JObj sample_fields) = Inr []"
  "account_data (JObj sample_fields) = Inr sample_payload"
  by (simp_all add: post_request_def sample_fields_def sample_payload_def missing_fields_def
      required_fields_def account_data_def item_strip_def strip_def lstrip_def rstrip_def
      isspace_def)




text \<open>
  Claim C4: when the outbound call raises (a timeout, a connection failure, another
  transport exception or any other exception), the relay answers 500 with the
  envelope success = false, error = the fixed reason of the failure class
  (\<open>stable_reason\<close>) and status_code = null. For a timeout the reason is
  \<^verbatim>\<open>Request timed out. Please try again.\<close>
\<close>

theorem relay_of_failed_call:
  assumes "http_method req = POST" and "is_json req" and "get_json req = Inr data"
    and "py_truthy data" and "missing_fields data = Inr []"
    and "account_data data = Inr payload"
    and "post payload = Inl (Raised c t)"
  shows "create_simple_account post req =
     \<lparr>body = JObj
        [(''success'', JBool False),
         (''error'', JStr (stable_reason c)),
         (''status_code'', JNull)],
      status = JInt 500, outbound = [payload]\<rparr>"
  by (simp add: create_simple_account_post [OF assms(1)]
      try_block_forward [OF assms(2-6)] assms(7) create_account_def
      except_clauses_stable_reason del: except_clauses.simps)

theorem relay_of_failed_call_witness:
  "create_simple_account (upstream_raising Timeout ''read timed out'')
       (post_request (JObj sample_fields)) =
     \<lparr>body = JObj
        [(''success'', JBool False),
         (''error'', JStr ''Request timed out. Please try again.''),
         (''status_code'', JNull)],
      status = JInt 500, outbound = [sample_payload]\<rparr>"
proof -
  have raise: "upstream_raising Timeout ''read timed out'' sample_payload =
      Inl (Raised Timeout ''read timed out'')"
    by (simp add: upstream_raising_def)
  show ?thesis
    using relay_of_failed_call [where post = "upstream_raising Timeout ''read timed out''",
        OF sample_request_forwarded raise]
    by simp
qed

section \<open>Claim C5: which strings are trimmed\<close>

text \<open>
  Claim C5, as stated, at a request whose password is \<^verbatim>\<open>" s3cret "\<close> and whose offer is
  \<^verbatim>\<open>" gold "\<close>: both are transmitted with their surrounding spaces, while trimming
  would give \<^verbatim>\<open>"s3cret"\<close> and \<^verbatim>\<open>"gold"\<close>.
\<close>

theorem password_offer_counterexample:
  "transmitted (create_simple_account upstream_201 (post_request (JObj padded_fields)))
       [''password''] = [Some (JStr '' s3cret '')]
   \<and> transmitted (create_simple_account upstream_201 (post_request (JObj padded_fields)))
       [''offer''] = [Some (JStr '' gold '')]
   \<and> strip '' s3cret '' = ''s3cret'' \<and> strip '' gold '' = ''gold''"
  by (simp add: transmitted_def create_simple_account_def try_block_def post_request_def
      padded_fields_def sample_fields_def missing_fields_def required_fields_def
      account_data_def item_strip_def relay_status_def create_account_def upstream_201_def
      response_data_def strip_def lstrip_def rstrip_def isspace_def)

text \<open>
  Claim C5, amended: for a valid request, email, firstname, lastname and phoneNumber
  are transmitted trimmed of surrounding whitespace; the password and a given offer
  are transmitted exactly as received.
\<close>

theorem only_four_fields_trimmed:
  assumes "http_method req = POST" and "is_json req" and "get_json req = Inr (JObj d)"
    and "map_of d ''email'' = Some (JStr e)" and "e \<noteq> []"
    and "map_of d ''password'' = Some pw" and "py_truthy pw"
    and "map_of d ''firstname'' = Some (JStr fname)" and "fname \<noteq> []"
    and "map_of d ''lastname'' = Some (JStr lname)" and "lname \<noteq> []"
    and "map_of d ''phoneNumber'' = Some (JStr ph)" and "ph \<noteq> []"
    and "map_of d ''offer'' = Some off"
  shows "transmitted (create_simple_account post req) [''email''] = [Some (JStr (strip e))]
     \<and> transmitted (create_simple_account post req) [''personalDetails'', ''firstname''] =
         [Some (JStr (strip fname))]
     \<and> transmitted (create_simple_account post req) [''personalDetails'', ''lastname''] =
         [Some (JStr (strip lname))]
     \<and> transmitted (create_simple_account post req) [''contactDetails'', ''phoneNumber''] =
         [Some (JStr (strip ph))]
     \<and> transmitted (create_simple_account post req) [''password''] = [Some pw]
     \<and> transmitted (create_simple_account post req) [''offer''] = [Some off]"
proof -
  have nonempty: "d \<noteq> []"
    using assms(4) by auto
  have valid: "filter (\<lambda>f. \<not> py_truthy (dict_get d f)) required_fields = []"
    using assms(4-13) by (simp add: required_fields_def dict_get_def)
  have sent: "outbound (create_simple_account post req) =
     [JObj
       [(''email'', JStr (strip e)),
        (''password'', pw),
        (''offer'', off),
        (''createAsDepositedAccount'',
           case map_of d ''createAsDepositedAccount'' of None \<Rightarrow> JBool False | Some v \<Rightarrow> v),
        (''personalDetails'',
           JObj [(''firstname'', JStr (strip fname)), (''lastname'', JStr (strip lname))]),
        (''contactDetails'', JObj [(''phoneNumber'', JStr (strip ph))])]]"
    by (simp add: create_simple_account_post [OF assms(1)]
        try_block_object [OF assms(2,3) nonempty] valid
        account_data_strings [OF assms(4,6,8,10,12)] assms(14))
  show ?thesis
    by (simp add: transmitted_def sent)
qed

theorem only_four_fields_trimmed_witness:
  "transmitted (create_simple_account upstream_201 (post_request (JObj padded_fields)))
       [''email''] = [Some (JStr ''ann@example.org'')]
   \<and> transmitted (create_simple_account upstream_201 (post_request (JObj padded_fields)))
       [''password''] = [Some (JStr '' s3cret '')]
   \<and> transmitted (create_simple_account upstream_201 (post_request (JObj padded_fields)))
       [''offer''] = [Some (JStr '' gold '')]"
proof -
  have h1: "http_method (post_request (JObj padded_fields)) = POST"
    and h2: "is_json (post_request (JObj padded_fields))"
    and h3: "get_json (post_request (JObj padded_fields)) = Inr (JObj padded_fields)"
    by (simp_all add: post_request_def)
  have e: "map_of padded_fields ''email'' = Some (JStr '' ann@example.org '')"
    and ene: "'' ann@example.org '' \<noteq> []"
    and p: "map_of padded_fields ''password'' = Some (JStr '' s3cret '')"
    and pt: "py_truthy (JStr '' s3cret '')"
    and f: "map_of padded_fields ''firstname'' = Some (JStr ''Ann '')"
    and fne: "''Ann '' \<noteq> []"
    and l: "map_of padded_fields ''lastname'' = Some (JStr '' Lee'')"
    and lne: "'' Lee'' \<noteq> []"
    and n: "map_of padded_fields ''phoneNumber'' = Some (JStr '' 555 0100 '')"
    and nne: "'' 555 0100 '' \<noteq> []"
    and off: "map_of padded_fields ''offer'' = Some (JStr '' gold '')"
    by (simp_all add: padded_fields_def sample_fields_def)
  have trimmed: "strip '' ann@example.org '' = ''ann@example.org''"
    by (simp add: strip_def lstrip_def rstrip_def isspace_def)
  show ?thesis
    using only_four_fields_trimmed [OF h1 h2 h3 e ene p pt f fne l lne n nne off,
        of upstream_201]
    by (simp add: trimmed)
qed

section \<open>Claim C6: a body that is not an object\<close>

text \<open>
  Claim C6, as stated, at the JSON array \<^verbatim>\<open>[1]\<close>: \<^verbatim>\<open>data.get\<close> raises
  \<^verbatim>\<open>AttributeError\<close> on a list, the catch-all handler answers, and the status is 500
  with \<^verbatim>\<open>Internal server error occurred\<close>, not 400 with a malformed-body message.
\<close>

theorem array_body_counterexample:
  "create_simple_account upstream_201 (post_request (JArr [JInt 1])) =
     \<lparr>body = error_body ''Internal server error occurred'', status = JInt 500,
      outbound = []\<rparr>"
  by (simp add: create_simple_account_def try_block_def post_request_def)

text \<open>
  Claim C6, amended: a body that is valid JSON but not an object is rejected before
  any outbound call: with 400 and \<^verbatim>\<open>No JSON data provided\<close> when the value is falsy
  (null, false, 0, the empty string, the empty array), and with 500 and
  \<^verbatim>\<open>Internal server error occurred\<close> when it is truthy.
\<close>

theorem non_object_body_rejected:
  assumes "http_method req = POST" and "is_json req" and "get_json req = Inr data"
    and "\<not> is_object data"
  shows "create_simple_account post req =
     (if py_truthy data then
        \<lparr>body = error_body ''Internal server error occurred'', status = JInt 500,
         outbound = []\<rparr>
      else
        \<lparr>body = error_body ''No JSON data provided'', status = JInt 400,
         outbound = []\<rparr>)"
proof -
  have "py_get data ''email'' (JStr ''unknown'') = Inl (AttributeError ''get'')"
    using assms(4) by (cases data) simp_all
  then show ?thesis
    by (simp add: create_simple_account_post [OF assms(1)] try_block_def assms(2,3))
qed

theorem non_object_body_rejected_witness:
  "create_simple_account upstream_201 (post_request (JStr ''hello'')) =
     \<lparr>body = error_body ''Internal server error occurred'', status = JInt 500,
      outbound = []\<rparr>
   \<and> create_simple_account upstream_201 (post_request (JArr [])) =
     \<lparr>body = error_body ''No JSON data provided'', status = JInt 400, outbound = []\<rparr>"
proof -
  have s1: "http_method (post_request (JStr ''hello'')) = POST"
    and s2: "is_json (post_request (JStr ''hello''))"
    and s3: "get_json (post_request (JStr ''hello'')) = Inr (JStr ''hello'')"
    and s4: "\<not> is_object (JStr ''hello'')"
    and a1: "http_method (post_request (JArr [])) = POST"
    and a2: "is_json (post_request (JArr []))"
    and a3: "get_json (post_request (JArr [])) = Inr (JArr [])"
    and a4: "\<not> is_object (JArr [])"
    by (simp_all add: post_request_def)
  show ?thesis
    using non_object_body_rejected [OF s1 s2 s3 s4, of upstream_201]
      non_object_body_rejected [OF a1 a2 a3 a4, of upstream_201]
    by simp
qed

section \<open>Claim C7: the exception text does not reach the caller\<close>

lemma same_content_but_text_cases:
  assumes "same_content_but_text b1 b2"
  obtains (same) "b1 = b2"
    | (faults) c t1 t2 where "b1 = JsonFault (Raised c t1)" and "b2 = JsonFault (Raised c t2)"
  using assms
  by (cases "(b1, b2)" rule: same_content_but_text.cases) auto

lemma decoded_same_but_text:
  assumes "same_content_but_text b1 b2"
  shows "(case response_data b1 of Inl exc \<Rightarrow> except_clauses exc | Inr parsed \<Rightarrow> ok parsed) =
         (case response_data b2 of Inl exc \<Rightarrow> except_clauses exc | Inr parsed \<Rightarrow> ok parsed)"
  using assms
proof (cases rule: same_content_but_text_cases)
  case same
  then show ?thesis by simp
next
  case (faults c t1 t2)
  then show ?thesis by (simp add: response_data_def)
qed

lemma create_account_same_but_text:
  assumes "same_but_text (post1 p) (post2 p)"
  shows "create_account post1 p = create_account post2 p"
proof (cases "post1 p")
  case left: (Inl exc1)
  obtain c1 t1 where exc1: "exc1 = Raised c1 t1"
    by (cases exc1)
  from assms left obtain exc2 where right: "post2 p = Inl exc2"
    by (cases "post2 p") (simp_all add: exc1)
  obtain c2 t2 where exc2: "exc2 = Raised c2 t2"
    by (cases exc2)
  from assms have "c1 = c2"
    by (simp add: left right exc1 exc2)
  then show ?thesis
    by (simp add: create_account_def left right exc1 exc2)
next
  case left: (Inr r1)
  from assms left obtain r2 where right: "post2 p = Inr r2"
    by (cases "post2 p") simp_all
  from assms have st: "status_code r1 = status_code r2"
    and ct: "same_content_but_text (reply_content r1) (reply_content r2)"
    by (simp_all add: left right)
  show ?thesis
    by (simp only: create_account_def left right sum.case st decoded_same_but_text [OF ct])
qed

lemma try_block_same_but_text:
  assumes "\<forall>p. same_but_text (post1 p) (post2 p)"
    and "is_json req1 = is_json req2"
    and "get_json req1 = Inr data" and "get_json req2 = Inr data"
  shows "try_block post1 req1 = try_block post2 req2"
proof -
  have same: "create_account post1 = create_account post2"
  proof (rule ext)
    fix p
    show "create_account post1 p = create_account post2 p"
      using assms(1) by (simp add: create_account_same_but_text)
  qed
  show ?thesis
    by (simp only: try_block_def same assms(2-4))
qed

lemma try_block_get_json_raises:
  assumes "get_json req = Inl e"
  shows "try_block post req =
     (if \<not> is_json req then
        Inr \<lparr>body = error_body ''Content-Type must be application/json'',
             status = JInt 400, outbound = []\<rparr>
      else Inl e)"
  by (simp add: try_block_def assms)

text \<open>
  Claim C7: two executions that differ only in the text of the exceptions raised (by
  the outbound call, whatever its class, or by \<^verbatim>\<open>get_json\<close> inside the endpoint)
  give the caller the same status and the same body, and send the same payloads.
\<close>

theorem response_independent_of_exception_text:
  assumes "\<forall>p. same_but_text (post1 p) (post2 p)"
    and "http_method req1 = http_method req2"
    and "is_json req1 = is_json req2"
    and "same_body_but_text (get_json req1) (get_json req2)"
  shows "create_simple_account post1 req1 = create_simple_account post2 req2"
proof (cases "get_json req1")
  case (Inl e1)
  with assms(4) obtain e2 where "get_json req2 = Inl e2"
    by (cases "get_json req2") simp_all
  with Inl show ?thesis
    by (simp add: create_simple_account_def try_block_get_json_raises assms(2,3))
next
  case (Inr data)
  with assms(4) have "get_json req2 = Inr data"
    by (cases "get_json req2") simp_all
  with Inr have "try_block post1 req1 = try_block post2 req2"
    by (rule try_block_same_but_text [OF assms(1,3)])
  then show ?thesis
    by (simp add: create_simple_account_def assms(2))
qed

theorem response_independent_of_exception_text_witness:
  "create_simple_account (upstream_raising ConnectionError ''name resolution failed'')
       (post_request (JObj sample_fields)) =
   create_simple_account (upstream_raising ConnectionError ''connection reset by peer'')
       (post_request (JObj sample_fields))"
proof -
  have h1: "\<forall>p. same_but_text (upstream_raising ConnectionError ''name resolution failed'' p)
      (upstream_raising ConnectionError ''connection reset by peer'' p)"
    by (simp add: upstream_raising_def)
  have h2: "http_method (post_request (JObj sample_fields)) =
      http_method (post_request (JObj sample_fields))"
    and h3: "is_json (post_request (JObj sample_fields)) =
      is_json (post_request (JObj sample_fields))"
    by simp_all
  have h4: "same_body_but_text (get_json (post_request (JObj sample_fields)))
      (get_json (post_request (JObj sample_fields)))"
    by (simp add: post_request_def)
  show ?thesis
    using response_independent_of_exception_text [OF h1 h2 h3 h4] .
qed

section \<open>Claim C8: a field of whitespace only\<close>

lemma dict_get_str:
  assumes "is_str (dict_get d k)"
  obtains s where "map_of d k = Some (JStr s)"
  using assms by (cases "map_of d k"; cases "dict_get d k") (auto simp: dict_get_def)

lemma dict_get_truthy:
  assumes "py_truthy (dict_get d k)"
  obtains v where "map_of d k = Some v" and "py_truthy v"
  using assms by (cases "map_of d k") (auto simp: dict_get_def)

text \<open>
  Claim C8, as stated, at a request whose email is a single space and whose other
  required fields are absent: the answer is the 400 missing-fields response (for the
  other four fields) and no outbound call is made.
\<close>

theorem blank_email_counterexample:
  "create_simple_account upstream_201 (post_request (JObj [(''email'', JStr '' '')])) =
     \<lparr>body = error_body ''Missing required fields: password, firstname, lastname, phoneNumber'',
      status = JInt 400, outbound = []\<rparr>"
  by (simp add: create_simple_account_def try_block_def post_request_def missing_fields_def
      required_fields_def)

text \<open>
  Claim C8, amended: a field among email, firstname, lastname and phoneNumber that is
  a non-empty string of whitespace only is never listed as missing; and when every
  required field is truthy and the four trimmed fields are strings, exactly one
  outbound call is made and its payload holds the empty string for that field.
\<close>

theorem blank_field_forwarded_empty:
  assumes "http_method req = POST" and "is_json req" and "get_json req = Inr (JObj d)"
    and "f \<in> set trimmed_fields"
    and "map_of d f = Some (JStr w)" and "w \<noteq> []" and "\<forall>c \<in> set w. isspace c"
  shows "missing_fields (JObj d) =
       Inr (filter (\<lambda>g. \<not> py_truthy (dict_get d g)) required_fields)
     \<and> f \<notin> set (filter (\<lambda>g. \<not> py_truthy (dict_get d g)) required_fields)
     \<and> ((\<forall>g \<in> set required_fields. py_truthy (dict_get d g)) \<and>
         (\<forall>g \<in> set trimmed_fields. is_str (dict_get d g)) \<longrightarrow>
         transmitted (create_simple_account post req) (path_of f) = [Some (JStr [])])"
proof -
  have truthy: "py_truthy (dict_get d f)"
    using assms(5,6) by (simp add: dict_get_def)
  have forwarded: "transmitted (create_simple_account post req) (path_of f) = [Some (JStr [])]"
    if all_truthy: "\<forall>g \<in> set required_fields. py_truthy (dict_get d g)"
      and all_str: "\<forall>g \<in> set trimmed_fields. is_str (dict_get d g)"
  proof -
    from all_str obtain e fname lname ph
      where e: "map_of d ''email'' = Some (JStr e)"
        and fname: "map_of d ''firstname'' = Some (JStr fname)"
        and lname: "map_of d ''lastname'' = Some (JStr lname)"
        and ph: "map_of d ''phoneNumber'' = Some (JStr ph)"
      by (auto simp: trimmed_fields_def elim!: dict_get_str)
    from all_truthy obtain pw where pw: "map_of d ''password'' = Some pw"
      by (auto simp: required_fields_def elim!: dict_get_truthy)
    have nonempty: "d \<noteq> []"
      using assms(5) by auto
    have valid: "filter (\<lambda>f. \<not> py_truthy (dict_get d f)) required_fields = []"
      using all_truthy by (simp only: all_truthy_no_missing)
    have sent: "outbound (create_simple_account post req) =
       [JObj
         [(''email'', JStr (strip e)),
          (''password'', pw),
          (''offer'', case map_of d ''offer'' of None \<Rightarrow> JStr default_offer | Some v \<Rightarrow> v),
          (''createAsDepositedAccount'',
             case map_of d ''createAsDepositedAccount'' of None \<Rightarrow> JBool False | Some v \<Rightarrow> v),
          (''personalDetails'',
             JObj [(''firstname'', JStr (strip fname)), (''lastname'', JStr (strip lname))]),
          (''contactDetails'', JObj [(''phoneNumber'', JStr (strip ph))])]]"
      by (simp add: create_simple_account_post [OF assms(1)]
          try_block_object [OF assms(2,3) nonempty] valid
          account_data_strings [OF e pw fname lname ph])
    have blank: "strip w = []"
      using assms(7) by (rule strip_blank)
    from assms(4) consider "f = ''email''" | "f = ''firstname''" | "f = ''lastname''"
      | "f = ''phoneNumber''"
      by (auto simp: trimmed_fields_def)
    then show ?thesis
    proof cases
      case 1
      with assms(5) e blank show ?thesis
        by (simp add: transmitted_def sent path_of_def)
    next
      case 2
      with assms(5) fname blank show ?thesis
        by (simp add: transmitted_def sent path_of_def)
    next
      case 3
      with assms(5) lname blank show ?thesis
        by (simp add: transmitted_def sent path_of_def)
    next
      case 4
      with assms(5) ph blank show ?thesis
        by (simp add: transmitted_def sent path_of_def)
    qed
  qed
  show ?thesis
    using truthy forwarded by (simp add: missing_fields_object)
qed

theorem blank_field_forwarded_empty_witness:
  "transmitted (create_simple_account upstream_201 (post_request (JObj blank_name_fields)))
       [''personalDetails'', ''lastname''] = [Some (JStr [])]"
proof -
  have h1: "http_method (post_request (JObj blank_name_fields)) = POST"
    and h2: "is_json (post_request (JObj blank_name_fields))"
    and h3: "get_json (post_request (JObj blank_name_fields)) = Inr (JObj blank_name_fields)"
    by (simp_all add: post_request_def)
  have h4: "''lastname'' \<in> set trimmed_fields"
    by (simp add: trimmed_fields_def)
  have h5: "map_of blank_name_fields ''lastname'' = Some (JStr [CHR '' '', CHR 0x09])"
    by (simp add: blank_name_fields_def)
  have h6: "[CHR '' '', CHR 0x09] \<noteq> []"
    by simp
  have h7: "\<forall>c \<in> set [CHR '' '', CHR 0x09]. isspace c"
    by (simp add: isspace_def)
  have all_truthy: "\<forall>g \<in> set required_fields. py_truthy (dict_get blank_name_fields g)"
    by (simp add: required_fields_def dict_get_def blank_name_fields_def)
  have all_str: "\<forall>g \<in> set trimmed_fields. is_str (dict_get blank_name_fields g)"
    by (simp add: trimmed_fields_def dict_get_def blank_name_fields_def)
  show ?thesis
    using blank_field_forwarded_empty [OF h1 h2 h3 h4 h5 h6 h7, of upstream_201]
      all_truthy all_str
    by (simp add: path_of_def)
qed

section \<open>Claim C9: a trimmed field that is not a string\<close>

text \<open>
  Claim C9, as stated, at a request whose email is the number 5 and whose other
  required fields are absent: the answer is the 400 missing-fields response, not 500.
\<close>

theorem number_email_counterexample:
  "create_simple_account upstream_201 (post_request (JObj [(''email'', JInt 5)])) =
     \<lparr>body = error_body ''Missing required fields: password, firstname, lastname, phoneNumber'',
      status = JInt 400, outbound = []\<rparr>"
  by (simp add: create_simple_account_def try_block_def post_request_def missing_fields_def
      required_fields_def)

text \<open>
  Claim C9, amended: when every required field is truthy and one of email, firstname,
  lastname, phoneNumber is not a string, \<^verbatim>\<open>.strip()\<close> raises while the payload is built,
  and the relay answers 500 with \<^verbatim>\<open>Internal server error occurred\<close>, without an
  outbound call.
\<close>

theorem non_string_field_internal_error:
  assumes "http_method req = POST" and "is_json req" and "get_json req = Inr (JObj d)"
    and "\<forall>g \<in> set required_fields. py_truthy (dict_get d g)"
    and "f \<in> set trimmed_fields"
    and "map_of d f = Some v" and "\<not> is_str v"
  shows "create_simple_account post req =
     \<lparr>body = error_body ''Internal server error occurred'', status = JInt 500,
      outbound = []\<rparr>"
proof -
  have nonempty: "d \<noteq> []"
    using assms(6) by auto
  have valid: "filter (\<lambda>f. \<not> py_truthy (dict_get d f)) required_fields = []"
    using assms(4) by (simp only: all_truthy_no_missing)
  from account_data_not_str [OF assms(5-7)] obtain e where "account_data (JObj d) = Inl e"
    by (cases "account_data (JObj d)") simp_all
  then show ?thesis
    by (simp add: create_simple_account_post [OF assms(1)]
        try_block_object [OF assms(2,3) nonempty] valid)
qed

theorem non_string_field_internal_error_witness:
  "create_simple_account upstream_201 (post_request (JObj numeric_phone_fields)) =
     \<lparr>body = error_body ''Internal server error occurred'', status = JInt 500,
      outbound = []\<rparr>"
proof -
  have h1: "http_method (post_request (JObj numeric_phone_fields)) = POST"
    and h2: "is_json (post_request (JObj numeric_phone_fields))"
    and h3: "get_json (post_request (JObj numeric_phone_fields)) =
      Inr (JObj numeric_phone_fields)"
    by (simp_all add: post_request_def)
  have h4: "\<forall>g \<in> set required_fields. py_truthy (dict_get numeric_phone_fields g)"
    by (simp add: required_fields_def dict_get_def numeric_phone_fields_def)
  have h5: "''phoneNumber'' \<in> set trimmed_fields"
    by (simp add: trimmed_fields_def)
  have h6: "map_of numeric_phone_fields ''phoneNumber'' = Some (JInt 5550100)"
    by (simp add: numeric_phone_fields_def)
  have h7: "\<not> is_str (JInt 5550100)"
    by simp
  show ?thesis
    using non_string_field_internal_error [OF h1 h2 h3 h4 h5 h6 h7, of upstream_201] .
qed

section \<open>Claim C10: a required field bound to a falsy value\<close>

lemma map_of_without:
  "map_of (without k d) g = (if g = k then None else map_of d g)"
  by (induction d) (auto simp: without_def)

lemma dict_get_without:
  "dict_get (without k d) g = (if g = k then JNull else dict_get d g)"
  by (simp add: dict_get_def map_of_without)

text \<open>
  Claim C10, as stated, at the body \<^verbatim>\<open>{"email": null}\<close>: the field is listed in the 400
  missing-fields response, but not exactly as if the key were absent, since the body
  without the key is \<^verbatim>\<open>{}\<close> and that is answered \<^verbatim>\<open>No JSON data provided\<close>.
\<close>

theorem null_only_field_counterexample:
  "create_simple_account upstream_201 (post_request (JObj [(''email'', JNull)])) =
     \<lparr>body = error_body
        ''Missing required fields: email, password, firstname, lastname, phoneNumber'',
      status = JInt 400, outbound = []\<rparr>
   \<and> create_simple_account upstream_201
       (post_request (JObj (without ''email'' [(''email'', JNull)]))) =
     \<lparr>body = error_body ''No JSON data provided'', status = JInt 400, outbound = []\<rparr>
   \<and> create_simple_account upstream_201 (post_request (JObj [(''email'', JNull)])) \<noteq>
     create_simple_account upstream_201
       (post_request (JObj (without ''email'' [(''email'', JNull)])))"
  by (simp add: create_simple_account_def try_block_def post_request_def missing_fields_def
      required_fields_def without_def error_body_def)

text \<open>
  Claim C10, amended: a required field that is present with a falsy value (false, 0,
  null, and also an empty array or object) is listed in the 400 missing-fields
  response; the list of missing fields is the one of the body without that key, and
  the whole response is the one of the body without that key whenever that body is
  not empty.
\<close>

theorem falsy_field_reported_missing:
  assumes "http_method req = POST" and "is_json req" and "get_json req = Inr (JObj d)"
    and "f \<in> set required_fields"
    and "map_of d f = Some v" and "\<not> py_truthy v"
  shows "create_simple_account post req =
       \<lparr>body = error_body (''Missing required fields: '' @
           join '', '' (filter (\<lambda>g. \<not> py_truthy (dict_get d g)) required_fields)),
        status = JInt 400, outbound = []\<rparr>
     \<and> f \<in> set (filter (\<lambda>g. \<not> py_truthy (dict_get d g)) required_fields)
     \<and> missing_fields (JObj d) = missing_fields (JObj (without f d))
     \<and> (without f d \<noteq> [] \<longrightarrow>
          create_simple_account post (req\<lparr>get_json := Inr (JObj (without f d))\<rparr>) =
          create_simple_account post req)"
proof -
  have nonempty: "d \<noteq> []"
    using assms(5) by auto
  have falsy: "\<not> py_truthy (dict_get d f)"
    using assms(5,6) by (simp add: dict_get_def)
  have listed: "f \<in> set (filter (\<lambda>g. \<not> py_truthy (dict_get d g)) required_fields)"
    using assms(4) falsy by simp
  then have some: "filter (\<lambda>g. \<not> py_truthy (dict_get d g)) required_fields \<noteq> []"
    by (metis empty_iff list.set(1))
  have same_truth: "py_truthy (dict_get (without f d) g) = py_truthy (dict_get d g)" for g
    using falsy by (simp add: dict_get_without)
  have here: "try_block post req =
      Inr \<lparr>body = error_body (''Missing required fields: '' @
           join '', '' (filter (\<lambda>g. \<not> py_truthy (dict_get d g)) required_fields)),
        status = JInt 400, outbound = []\<rparr>"
    using some by (simp add: try_block_object [OF assms(2,3) nonempty])
  have there: "try_block post (req\<lparr>get_json := Inr (JObj (without f d))\<rparr>) =
      try_block post req" if "without f d \<noteq> []"
  proof -
    have j: "is_json (req\<lparr>get_json := Inr (JObj (without f d))\<rparr>)"
      using assms(2) by simp
    have g: "get_json (req\<lparr>get_json := Inr (JObj (without f d))\<rparr>) =
        Inr (JObj (without f d))"
      by simp
    show ?thesis
      using some by (simp add: try_block_object [OF j g that] here same_truth)
  qed
  show ?thesis
    using listed there
    by (simp add: create_simple_account_def assms(1) here missing_fields_object same_truth)
qed

theorem falsy_field_reported_missing_witness:
  "create_simple_account upstream_201 (post_request (JObj null_phone_fields)) =
     \<lparr>body = error_body ''Missing required fields: password, lastname, phoneNumber'',
      status = JInt 400, outbound = []\<rparr>
   \<and> create_simple_account upstream_201
       (post_request (JObj null_phone_fields)\<lparr>get_json :=
          Inr (JObj (without ''phoneNumber'' null_phone_fields))\<rparr>) =
     create_simple_account upstream_201 (post_request (JObj null_phone_fields))"
proof -
  have h1: "http_method (post_request (JObj null_phone_fields)) = POST"
    and h2: "is_json (post_request (JObj null_phone_fields))"
    and h3: "get_json (post_request (JObj null_phone_fields)) = Inr (JObj null_phone_fields)"
    by (simp_all add: post_request_def)
  have h4: "''phoneNumber'' \<in> set required_fields"
    by (simp add: required_fields_def)
  have h5: "map_of null_phone_fields ''phoneNumber'' = Some JNull"
    by (simp add: null_phone_fields_def)
  have h6: "\<not> py_truthy JNull"
    by simp
  have rest: "without ''phoneNumber'' null_phone_fields \<noteq> []"
    by (simp add: without_def null_phone_fields_def)
  show ?thesis
    using falsy_field_reported_missing [OF h1 h2 h3 h4 h5 h6, of upstream_201] rest
    by (simp add: required_fields_def dict_get_def null_phone_fields_def)
qed

end
